theory Spec2Isabelle
  imports Main "HOL-Library.Word"
begin

section \<open>The oneDNN GEMM path of the GPU backend\<close>

text \<open>
  A shallow embedding of \<^verbatim>\<open>xla/service/gpu/onednn_matmul_utils.cc\<close>: the matrix
  descriptor and its derivation from a layout, the operand swap that removes a transposed
  output, the shape and stride tuples handed to oneDNN, and the dtype validation and
  dispatch of \<^verbatim>\<open>RunGemm\<close>. Calls into oneDNN are recorded in a list of backend calls
  that every stateful function takes and returns.
\<close>

subsection \<open>Types declared outside the file\<close>

type_synonym int64 = "64 word"

text \<open>
  \<^verbatim>\<open>se::blas::Transpose\<close> comes from the stream-executor BLAS header. The file names
  \<^verbatim>\<open>kNoTranspose\<close> and \<^verbatim>\<open>kTranspose\<close> and tests each of them separately, so the
  model keeps the conjugate-transpose enumerator of that header as a third value: no result
  below relies on the flag having two values only.
\<close>

datatype Transpose = kNoTranspose | kTranspose | kConjugateTranspose

text \<open>
  \<^verbatim>\<open>PrimitiveType\<close> is the element type enumeration of \<^verbatim>\<open>xla_data.proto\<close>. The seven
  enumerators that \<^verbatim>\<open>RunGemm\<close> names are constructors; \<open>OtherPrimitiveType\<close>
  stands for every other enumerator (by its number), which \<^verbatim>\<open>RunGemm\<close> reaches only
  through \<^verbatim>\<open>default:\<close>.
\<close>

datatype PrimitiveType =
  F16 | BF16 | F32 | F64 | C64 | C128 | S32 | OtherPrimitiveType nat

text \<open>
  Modelled from the spec: \<^verbatim>\<open>MatrixLayout::Order\<close>, the storage order of a layout
  (row-major or column-major), declared in \<^verbatim>\<open>onednn_matmul_utils.h\<close>.
\<close>

datatype Order = kRowMajor | kColumnMajor

text \<open>
  Modelled from the spec: \<^verbatim>\<open>MatrixLayout\<close>, declared in \<^verbatim>\<open>onednn_matmul_utils.h\<close>:
  row count, column count, batch size, storage order, leading-dimension stride, batch
  stride and element type. The field names are the ones the file reads.
\<close>

record MatrixLayout =
  dtype :: PrimitiveType
  num_rows :: int64
  num_cols :: int64
  order :: Order
  leading_dim_stride :: int64
  batch_size :: int64
  batch_stride :: int64

subsection \<open>Matrix descriptors\<close>

text \<open>
  \<^verbatim>\<open>struct MatrixDescriptor\<close>. The device memory handle \<^verbatim>\<open>se::DeviceMemoryBase\<close> is
  the type parameter \<open>'mem\<close>. The descriptor's fields are declared after the layout's, so
  the plain names \<open>num_rows\<close>, \<open>num_cols\<close>, \<open>batch_stride\<close> and
  \<open>leading_dim_stride\<close> are the descriptor's, and the layout's are written
  \<open>MatrixLayout.num_rows\<close> and so on.
\<close>

record 'mem MatrixDescriptor =
  data :: 'mem
  transpose :: Transpose
  num_rows :: int64
  num_cols :: int64
  batch_stride :: int64
  leading_dim_stride :: int64

definition reduced_dim :: "'mem MatrixDescriptor \<Rightarrow> int64" where
  "reduced_dim d = (if transpose d = kTranspose then num_rows d else num_cols d)"

definition GetMatrixDesc :: "MatrixLayout \<Rightarrow> 'mem \<Rightarrow> 'mem MatrixDescriptor" where
  "GetMatrixDesc layout dat =
     (let transp = (order layout = kColumnMajor) in
      \<lparr> data = dat,
        transpose = (if transp then kTranspose else kNoTranspose),
        num_rows = (if transp then MatrixLayout.num_cols layout
                    else MatrixLayout.num_rows layout),
        num_cols = (if transp then MatrixLayout.num_rows layout
                    else MatrixLayout.num_cols layout),
        batch_stride = MatrixLayout.batch_stride layout,
        leading_dim_stride = MatrixLayout.leading_dim_stride layout \<rparr>)"

subsection \<open>Shape and stride tuples\<close>

text \<open>
  \<^verbatim>\<open>dnnl::memory::dims\<close> is a vector of 64-bit integers. \<open>swap_at i j v\<close> is
  \<^verbatim>\<open>std::swap(v[i], v[j])\<close>; the file applies it to vectors of three entries at the
  indices 2 and 1, which are in range.
\<close>

type_synonym dims = "int64 list"

record OneDnnMatMulParams =
  a_dims :: dims
  b_dims :: dims
  c_dims :: dims
  a_strides :: dims
  b_strides :: dims
  c_strides :: dims

definition swap_at :: "nat \<Rightarrow> nat \<Rightarrow> 'a list \<Rightarrow> 'a list" where
  "swap_at i j v = v[i := v ! j, j := v ! i]"

definition CreateMatMulParams ::
  "int64 \<Rightarrow> 'mem MatrixDescriptor \<Rightarrow> 'mem MatrixDescriptor \<Rightarrow> 'mem MatrixDescriptor
     \<Rightarrow> OneDnnMatMulParams" where
  "CreateMatMulParams = (\<lambda>batch_size lhs rhs out.
      let lhs_dims = [batch_size, num_rows lhs, num_cols lhs];
          rhs_dims = [batch_size, num_rows rhs, num_cols rhs];
          out_dims = [batch_size, num_rows out, num_cols out];
          lhs_strides = [batch_stride lhs, leading_dim_stride lhs, 1];
          rhs_strides = [batch_stride rhs, leading_dim_stride rhs, 1];
          out_strides = [batch_stride out, leading_dim_stride out, 1];
          idx_last = 2;
          idx_2nd_last = 1;
          (lhs_dims, lhs_strides) =
             (if transpose lhs = kTranspose
              then (swap_at idx_last idx_2nd_last lhs_dims,
                    swap_at idx_last idx_2nd_last lhs_strides)
              else (lhs_dims, lhs_strides));
          (rhs_dims, rhs_strides) =
             (if transpose rhs = kTranspose
              then (swap_at idx_last idx_2nd_last rhs_dims,
                    swap_at idx_last idx_2nd_last rhs_strides)
              else (rhs_dims, rhs_strides))
      in \<lparr> a_dims = lhs_dims, b_dims = rhs_dims, c_dims = out_dims,
           a_strides = lhs_strides, b_strides = rhs_strides, c_strides = out_strides \<rparr>)"

subsection \<open>Removing a transposed output\<close>

definition TransposeMatrixDesc :: "'mem MatrixDescriptor \<Rightarrow> 'mem MatrixDescriptor" where
  "TransposeMatrixDesc matrix_desc =
     matrix_desc\<lparr>transpose :=
       (if transpose matrix_desc = kNoTranspose then kTranspose else kNoTranspose)\<rparr>"

text \<open>
  \<^verbatim>\<open>MakeBlasGemmCompatible\<close> updates its three reference parameters in place; the model
  returns the three descriptors (lhs, rhs, output) as they are after the call.
  \<^verbatim>\<open>RunGemm\<close>, the only caller, passes three distinct local variables.
\<close>

definition MakeBlasGemmCompatible ::
  "'mem MatrixDescriptor \<Rightarrow> 'mem MatrixDescriptor \<Rightarrow> 'mem MatrixDescriptor
     \<Rightarrow> 'mem MatrixDescriptor \<times> 'mem MatrixDescriptor \<times> 'mem MatrixDescriptor" where
  "MakeBlasGemmCompatible lhs rhs output =
     (if transpose output = kTranspose
      then (let (lhs, rhs) = (rhs, lhs);
                lhs = TransposeMatrixDesc lhs;
                rhs = TransposeMatrixDesc rhs;
                output = TransposeMatrixDesc output
            in (lhs, rhs, output))
      else (lhs, rhs, output))"

subsection \<open>Errors and the backend\<close>

text \<open>
  \<open>InternalError\<close> is the status \<^verbatim>\<open>InternalError(format, ...)\<close> with its formatted
  message; \<open>AllocatorError\<close> is the status of a failed \<^verbatim>\<open>AllocateWorkspace\<close>, which
  \<^verbatim>\<open>TF_RETURN_IF_ERROR\<close> returns as it is; \<open>CheckFailure\<close> is a failed \<^verbatim>\<open>CHECK\<close>,
  which ends the process. A result is \<open>error + unit\<close>, \<open>Inr ()\<close> being
  \<^verbatim>\<open>OkStatus()\<close>.
\<close>

datatype error = InternalError string | AllocatorError string | CheckFailure

text \<open>The template argument \<^verbatim>\<open>Input\<close> of \<^verbatim>\<open>DoGemm\<close>.\<close>

datatype Input = Eigen_half | Eigen_bfloat16 | float

text \<open>
  What oneDNN is asked to do, in the order of the calls. \<open>PrimitiveDesc\<close> is the
  construction of the matmul primitive descriptor from the three memory descriptors (element
  type, shape and stride tuples) and the attributes: whether the fp32 math mode is set, and
  the scalars \<open>alpha\<close> and \<open>beta\<close> from which lines 170 to 175 choose the post
  operations by floating-point comparisons, which the embedding leaves to the backend.
  \<open>Execute\<close> is the execution on the lhs, rhs and output memory with the workspace.
  The scalars reach \<^verbatim>\<open>DoGemm\<close> narrowed to \<^verbatim>\<open>float\<close>, which the model does not
  distinguish; what oneDNN does inside a call, an exception included, is outside the model.
\<close>

datatype ('mem, 'f) backend_call =
    PrimitiveDesc Input OneDnnMatMulParams bool 'f 'f
  | Execute 'mem 'mem 'mem 'mem

text \<open>
  The collaborators \<^verbatim>\<open>DoGemm\<close> asks: the size of the scratchpad that the primitive
  descriptor reports, and \<^verbatim>\<open>AllocateWorkspace\<close> with the scratch allocator, which
  gives a workspace or the status of its failure.
\<close>

record 'mem backend =
  scratchpad_size :: "Input \<Rightarrow> OneDnnMatMulParams \<Rightarrow> nat"
  AllocateWorkspace :: "nat \<Rightarrow> string + 'mem"

definition DoGemm ::
  "'mem backend \<Rightarrow> Input \<Rightarrow> int64 \<Rightarrow> int64 \<Rightarrow> int64 \<Rightarrow> int64
     \<Rightarrow> 'mem MatrixDescriptor \<Rightarrow> 'mem MatrixDescriptor \<Rightarrow> 'mem MatrixDescriptor
     \<Rightarrow> 'f \<Rightarrow> 'f \<Rightarrow> int64 \<Rightarrow> ('mem, 'f) backend_call list
     \<Rightarrow> (error + unit) \<times> ('mem, 'f) backend_call list" where
  "DoGemm be input = (\<lambda>batch_size m n k lhs rhs output alpha beta compute_precision calls.
      if transpose output \<noteq> kNoTranspose then (Inl CheckFailure, calls)
      else
        let lhs_data = data lhs;
            rhs_data = data rhs;
            out_data = data output;
            params = CreateMatMulParams batch_size lhs rhs output;
            calls = calls @ [PrimitiveDesc input params (input = float) alpha beta]
        in case AllocateWorkspace be (scratchpad_size be input params) of
             Inl status \<Rightarrow> (Inl (AllocatorError status), calls)
           | Inr workspace \<Rightarrow>
               (Inr (), calls @ [Execute lhs_data rhs_data out_data workspace]))"

subsection \<open>RunGemm\<close>

text \<open>
  Modelled from the spec: \<^verbatim>\<open>GemmConfig\<close>, declared in \<^verbatim>\<open>onednn_matmul_utils.h\<close>:
  the three layouts, the complex scalar \<open>alpha\<close> (a pair of real and imaginary part, of
  which \<^verbatim>\<open>RunGemm\<close> reads \<^verbatim>\<open>alpha.real()\<close>), the scalar \<open>beta\<close> and the compute
  precision. The scalar type is the parameter \<open>'f\<close>: the embedding passes scalars on and
  never computes with them.
\<close>

record 'f GemmConfig =
  lhs_layout :: MatrixLayout
  rhs_layout :: MatrixLayout
  output_layout :: MatrixLayout
  alpha :: "'f \<times> 'f"
  beta :: 'f
  compute_precision :: int64

text \<open>
  \<^verbatim>\<open>primitive_util::LowercasePrimitiveTypeName\<close> is the parameter \<open>name\<close>. The two
  messages are the format strings of the file with \<^verbatim>\<open>%s\<close> replaced by the names.
\<close>

definition type_mismatch_message ::
  "(PrimitiveType \<Rightarrow> string) \<Rightarrow> PrimitiveType \<Rightarrow> PrimitiveType \<Rightarrow> PrimitiveType \<Rightarrow> string" where
  "type_mismatch_message name lhs_dtype rhs_dtype output_dtype =
     ''GEMM lhs type('' @ name lhs_dtype @ '') and rhs type('' @ name rhs_dtype
       @ '') must match output type('' @ name output_dtype @ '')''"

definition unexpected_dtype_message :: "(PrimitiveType \<Rightarrow> string) \<Rightarrow> PrimitiveType \<Rightarrow> string" where
  "unexpected_dtype_message name output_dtype =
     ''Unexpected GEMM dtype: '' @ name output_dtype"

definition RunGemm ::
  "(PrimitiveType \<Rightarrow> string) \<Rightarrow> 'mem backend \<Rightarrow> 'f GemmConfig \<Rightarrow> 'mem \<Rightarrow> 'mem \<Rightarrow> 'mem
     \<Rightarrow> ('mem, 'f) backend_call list
     \<Rightarrow> (error + unit) \<times> ('mem, 'f) backend_call list" where
  "RunGemm name be config lhs_buffer rhs_buffer output_buffer calls =
     (let lhs_layout = lhs_layout config;
          rhs_layout = rhs_layout config;
          output_layout = output_layout config;
          m = MatrixLayout.num_rows output_layout;
          n = MatrixLayout.num_cols output_layout;
          k = MatrixLayout.num_cols lhs_layout;
          lhs = GetMatrixDesc lhs_layout lhs_buffer;
          rhs = GetMatrixDesc rhs_layout rhs_buffer;
          output = GetMatrixDesc output_layout output_buffer;
          batch_size = batch_size output_layout;
          (lhs, rhs, output) = MakeBlasGemmCompatible lhs rhs output
      in if (dtype output_layout = F16 \<or> dtype output_layout = BF16 \<or>
             dtype output_layout = F32 \<or> dtype output_layout = F64 \<or>
             dtype output_layout = C64 \<or> dtype output_layout = C128) \<and>
            (dtype lhs_layout \<noteq> dtype output_layout \<or>
             dtype rhs_layout \<noteq> dtype output_layout)
         then (Inl (InternalError (type_mismatch_message name (dtype lhs_layout)
                      (dtype rhs_layout) (dtype output_layout))), calls)
         else
           (case dtype output_layout of
              F16 \<Rightarrow> DoGemm be Eigen_half batch_size m n k lhs rhs output
                       (fst (alpha config)) (beta config) (compute_precision config) calls
            | BF16 \<Rightarrow> DoGemm be Eigen_bfloat16 batch_size m n k lhs rhs output
                       (fst (alpha config)) (beta config) (compute_precision config) calls
            | F32 \<Rightarrow> DoGemm be float batch_size m n k lhs rhs output
                       (fst (alpha config)) (beta config) (compute_precision config) calls
            | _ \<Rightarrow> (Inl (InternalError (unexpected_dtype_message name
                       (dtype output_layout))), calls)))"

subsection \<open>Concrete inputs\<close>

text \<open>
  Inputs at which the theorems below are evaluated: a naming of the element types, a
  backend whose allocator always gives a workspace, layouts, a configuration of a
  \<open>2 \<times> 3\<close> by \<open>3 \<times> 4\<close> product with chosen element types, and descriptors.
\<close>

definition lowercase_name :: "PrimitiveType \<Rightarrow> string" where
  "lowercase_name t =
     (case t of F16 \<Rightarrow> ''f16'' | BF16 \<Rightarrow> ''bf16'' | F32 \<Rightarrow> ''f32'' | F64 \<Rightarrow> ''f64''
      | C64 \<Rightarrow> ''c64'' | C128 \<Rightarrow> ''c128'' | S32 \<Rightarrow> ''s32''
      | OtherPrimitiveType n \<Rightarrow> ''other'')"

definition ready_backend :: "nat backend" where
  "ready_backend = \<lparr> scratchpad_size = (\<lambda>input params. 64),
                      AllocateWorkspace = (\<lambda>size. Inr size) \<rparr>"

definition layout_of :: "PrimitiveType \<Rightarrow> int64 \<Rightarrow> int64 \<Rightarrow> Order \<Rightarrow> MatrixLayout" where
  "layout_of t r c ord =
     \<lparr> dtype = t, MatrixLayout.num_rows = r, MatrixLayout.num_cols = c, order = ord,
       MatrixLayout.leading_dim_stride = (if ord = kRowMajor then c else r),
       batch_size = 1, MatrixLayout.batch_stride = r * c \<rparr>"

definition config_of :: "PrimitiveType \<Rightarrow> PrimitiveType \<Rightarrow> PrimitiveType \<Rightarrow> int GemmConfig" where
  "config_of l r out =
     \<lparr> lhs_layout = layout_of l 2 3 kRowMajor, rhs_layout = layout_of r 3 4 kRowMajor,
       output_layout = layout_of out 2 4 kRowMajor, alpha = (1, 0), beta = 0,
       compute_precision = 0 \<rparr>"

definition desc_of :: "nat \<Rightarrow> Transpose \<Rightarrow> int64 \<Rightarrow> int64 \<Rightarrow> nat MatrixDescriptor" where
  "desc_of dat t r c =
     \<lparr> data = dat, transpose = t, num_rows = r, num_cols = c, batch_stride = r * c,
       leading_dim_stride = c \<rparr>"

section \<open>Properties\<close>

subsection \<open>Descriptors and the operand swap\<close>

lemma TransposeMatrixDesc_transpose:
  "transpose (TransposeMatrixDesc d) =
     (if transpose d = kNoTranspose then kTranspose else kNoTranspose)"
  by (simp add: TransposeMatrixDesc_def)

lemma TransposeMatrixDesc_changes_flag:
  "transpose (TransposeMatrixDesc d) \<noteq> transpose d"
  by (cases "transpose d") (simp_all add: TransposeMatrixDesc_def)

lemma MakeBlasGemmCompatible_transposed:
  "transpose output = kTranspose \<Longrightarrow>
   MakeBlasGemmCompatible lhs rhs output =
     (TransposeMatrixDesc rhs, TransposeMatrixDesc lhs, TransposeMatrixDesc output)"
  by (simp add: MakeBlasGemmCompatible_def)

lemma MakeBlasGemmCompatible_not_transposed:
  "transpose output \<noteq> kTranspose \<Longrightarrow>
   MakeBlasGemmCompatible lhs rhs output = (lhs, rhs, output)"
  by (simp add: MakeBlasGemmCompatible_def)

lemma MakeBlasGemmCompatible_output:
  "transpose (snd (snd (MakeBlasGemmCompatible lhs rhs output))) \<noteq> kTranspose"
  by (simp add: MakeBlasGemmCompatible_def TransposeMatrixDesc_def)

text \<open>
  C1. Whatever the three descriptors are, the output descriptor that
  \<^verbatim>\<open>MakeBlasGemmCompatible\<close> leaves is not marked transposed. When the output descriptor
  it is given is marked transposed, the new lhs is the old rhs and the new rhs the old lhs,
  each with its transpose flag flipped as \<^verbatim>\<open>TransposeMatrixDesc\<close> flips it and every
  other field kept, and the output's flag is flipped to \<open>kNoTranspose\<close>: all three flags
  differ from what they were.
\<close>

theorem MakeBlasGemmCompatible_normalizes:
  assumes "MakeBlasGemmCompatible lhs rhs output = (lhs', rhs', output')"
  shows "transpose output' \<noteq> kTranspose \<and>
         (transpose output = kTranspose \<longrightarrow>
            lhs' = rhs\<lparr>transpose :=
                     (if transpose rhs = kNoTranspose then kTranspose else kNoTranspose)\<rparr> \<and>
            rhs' = lhs\<lparr>transpose :=
                     (if transpose lhs = kNoTranspose then kTranspose else kNoTranspose)\<rparr> \<and>
            output' = output\<lparr>transpose := kNoTranspose\<rparr> \<and>
            transpose lhs' \<noteq> transpose rhs \<and>
            transpose rhs' \<noteq> transpose lhs \<and>
            transpose output' \<noteq> transpose output)"
proof (cases "transpose output = kTranspose")
  case True
  with assms have eqs: "lhs' = TransposeMatrixDesc rhs" "rhs' = TransposeMatrixDesc lhs"
      "output' = TransposeMatrixDesc output"
    by (simp_all add: MakeBlasGemmCompatible_transposed)
  from True have "output' = output\<lparr>transpose := kNoTranspose\<rparr>"
    by (simp add: eqs TransposeMatrixDesc_def)
  moreover have "lhs' = rhs\<lparr>transpose :=
      (if transpose rhs = kNoTranspose then kTranspose else kNoTranspose)\<rparr>"
    and "rhs' = lhs\<lparr>transpose :=
      (if transpose lhs = kNoTranspose then kTranspose else kNoTranspose)\<rparr>"
    by (simp_all add: eqs TransposeMatrixDesc_def)
  moreover have "transpose lhs' \<noteq> transpose rhs" "transpose rhs' \<noteq> transpose lhs"
      "transpose output' \<noteq> transpose output"
    by (simp_all only: eqs TransposeMatrixDesc_changes_flag not_False_eq_True)
  moreover from True have "transpose output' \<noteq> kTranspose"
    by (simp add: eqs TransposeMatrixDesc_def)
  ultimately show ?thesis by blast
next
  case False
  with assms have "output' = output"
    by (simp add: MakeBlasGemmCompatible_not_transposed)
  with False show ?thesis by simp
qed

theorem MakeBlasGemmCompatible_normalizes_witness:
  "MakeBlasGemmCompatible (desc_of 10 kNoTranspose 2 3) (desc_of 20 kTranspose 4 3)
       (desc_of 30 kTranspose 4 2)
     = (desc_of 20 kNoTranspose 4 3, desc_of 10 kTranspose 2 3, desc_of 30 kNoTranspose 4 2) \<and>
   transpose (desc_of 30 kTranspose 4 2) = kTranspose \<and>
   transpose (desc_of 30 kNoTranspose 4 2) \<noteq> kTranspose \<and>
   transpose (desc_of 20 kNoTranspose 4 3) \<noteq> transpose (desc_of 20 kTranspose 4 3)"
proof -
  have run: "MakeBlasGemmCompatible (desc_of 10 kNoTranspose 2 3) (desc_of 20 kTranspose 4 3)
       (desc_of 30 kTranspose 4 2)
     = (desc_of 20 kNoTranspose 4 3, desc_of 10 kTranspose 2 3, desc_of 30 kNoTranspose 4 2)"
    by (simp add: MakeBlasGemmCompatible_def TransposeMatrixDesc_def desc_of_def)
  have flag: "transpose (desc_of 30 kTranspose 4 2) = kTranspose"
    by (simp add: desc_of_def)
  from MakeBlasGemmCompatible_normalizes [OF run] flag run show ?thesis
    by simp
qed

text \<open>
  C9. When the output descriptor is not marked transposed, \<^verbatim>\<open>MakeBlasGemmCompatible\<close>
  leaves the three descriptors as they are; and applying it to its own result gives that
  result again, for every triple of descriptors.
\<close>

theorem MakeBlasGemmCompatible_idempotent:
  "(transpose output \<noteq> kTranspose \<longrightarrow>
      MakeBlasGemmCompatible lhs rhs output = (lhs, rhs, output)) \<and>
   (case MakeBlasGemmCompatible lhs rhs output of
      (lhs', rhs', output') \<Rightarrow> MakeBlasGemmCompatible lhs' rhs' output')
     = MakeBlasGemmCompatible lhs rhs output"
proof -
  obtain lhs' rhs' output' where
    r: "MakeBlasGemmCompatible lhs rhs output = (lhs', rhs', output')"
    by (cases "MakeBlasGemmCompatible lhs rhs output") auto
  have "transpose output' \<noteq> kTranspose"
    using MakeBlasGemmCompatible_output [of lhs rhs "output"] by (simp add: r)
  then have "MakeBlasGemmCompatible lhs' rhs' output' = (lhs', rhs', output')"
    by (rule MakeBlasGemmCompatible_not_transposed)
  then have twice: "(case MakeBlasGemmCompatible lhs rhs output of
      (lhs', rhs', output') \<Rightarrow> MakeBlasGemmCompatible lhs' rhs' output')
     = MakeBlasGemmCompatible lhs rhs output"
    by (simp add: r)
  have "transpose output \<noteq> kTranspose \<longrightarrow>
      MakeBlasGemmCompatible lhs rhs output = (lhs, rhs, output)"
    by (simp add: MakeBlasGemmCompatible_not_transposed)
  with twice show ?thesis by (rule conjI [rotated])
qed

theorem MakeBlasGemmCompatible_idempotent_witness:
  "transpose (desc_of 30 kNoTranspose 2 4) \<noteq> kTranspose \<and>
   MakeBlasGemmCompatible (desc_of 10 kNoTranspose 2 3) (desc_of 20 kTranspose 4 3)
       (desc_of 30 kNoTranspose 2 4)
     = (desc_of 10 kNoTranspose 2 3, desc_of 20 kTranspose 4 3, desc_of 30 kNoTranspose 2 4) \<and>
   (case MakeBlasGemmCompatible (desc_of 10 kNoTranspose 2 3) (desc_of 20 kTranspose 4 3)
           (desc_of 30 kTranspose 4 2) of
      (lhs', rhs', output') \<Rightarrow> MakeBlasGemmCompatible lhs' rhs' output')
     = (desc_of 20 kNoTranspose 4 3, desc_of 10 kTranspose 2 3, desc_of 30 kNoTranspose 4 2)"
proof -
  have flag: "transpose (desc_of 30 kNoTranspose 2 4) \<noteq> kTranspose"
    by (simp add: desc_of_def)
  have run: "MakeBlasGemmCompatible (desc_of 10 kNoTranspose 2 3) (desc_of 20 kTranspose 4 3)
       (desc_of 30 kTranspose 4 2)
     = (desc_of 20 kNoTranspose 4 3, desc_of 10 kTranspose 2 3, desc_of 30 kNoTranspose 4 2)"
    by (simp add: MakeBlasGemmCompatible_def TransposeMatrixDesc_def desc_of_def)
  from MakeBlasGemmCompatible_idempotent
         [of "desc_of 30 kNoTranspose 2 4" "desc_of 10 kNoTranspose 2 3"
             "desc_of 20 kTranspose 4 3"]
       MakeBlasGemmCompatible_idempotent
         [of "desc_of 30 kTranspose 4 2" "desc_of 10 kNoTranspose 2 3"
             "desc_of 20 kTranspose 4 3"]
       flag run
  show ?thesis by simp
qed

text \<open>
  C5. \<^verbatim>\<open>GetMatrixDesc\<close> is a total function of the layout and the memory handle, which
  it only reads. Its descriptor is marked transposed exactly when the layout is
  column-major (and is \<open>kNoTranspose\<close> otherwise); then its \<open>num_rows\<close> is the layout's
  \<open>num_cols\<close> and its \<open>num_cols\<close> the layout's \<open>num_rows\<close>, otherwise both are taken
  as they are; \<open>batch_stride\<close>, \<open>leading_dim_stride\<close> and the memory handle are copied.
\<close>

theorem GetMatrixDesc_from_layout:
  "(transpose (GetMatrixDesc layout dat) = kTranspose \<longleftrightarrow> order layout = kColumnMajor) \<and>
   (transpose (GetMatrixDesc layout dat) = kNoTranspose \<longleftrightarrow> order layout \<noteq> kColumnMajor) \<and>
   (order layout = kColumnMajor \<longrightarrow>
      num_rows (GetMatrixDesc layout dat) = MatrixLayout.num_cols layout \<and>
      num_cols (GetMatrixDesc layout dat) = MatrixLayout.num_rows layout) \<and>
   (order layout \<noteq> kColumnMajor \<longrightarrow>
      num_rows (GetMatrixDesc layout dat) = MatrixLayout.num_rows layout \<and>
      num_cols (GetMatrixDesc layout dat) = MatrixLayout.num_cols layout) \<and>
   batch_stride (GetMatrixDesc layout dat) = MatrixLayout.batch_stride layout \<and>
   leading_dim_stride (GetMatrixDesc layout dat) = MatrixLayout.leading_dim_stride layout \<and>
   data (GetMatrixDesc layout dat) = dat"
  by (simp add: GetMatrixDesc_def Let_def)

theorem GetMatrixDesc_from_layout_witness:
  "order (layout_of F32 2 3 kColumnMajor) = kColumnMajor \<and>
   GetMatrixDesc (layout_of F32 2 3 kColumnMajor) (10::nat)
     = \<lparr> data = 10, transpose = kTranspose, num_rows = 3, num_cols = 2, batch_stride = 6,
         leading_dim_stride = 2 \<rparr> \<and>
   order (layout_of F32 2 3 kRowMajor) \<noteq> kColumnMajor \<and>
   GetMatrixDesc (layout_of F32 2 3 kRowMajor) (10::nat)
     = \<lparr> data = 10, transpose = kNoTranspose, num_rows = 2, num_cols = 3, batch_stride = 6,
         leading_dim_stride = 3 \<rparr>"
  using GetMatrixDesc_from_layout [of "layout_of F32 2 3 kColumnMajor" "10::nat"]
        GetMatrixDesc_from_layout [of "layout_of F32 2 3 kRowMajor" "10::nat"]
  by (simp add: layout_of_def GetMatrixDesc_def Let_def)

text \<open>
  C6. \<^verbatim>\<open>reduced_dim()\<close> of a descriptor is its \<open>num_rows\<close> when the descriptor is marked
  transposed and its \<open>num_cols\<close> otherwise; so it is for the descriptor that
  \<^verbatim>\<open>GetMatrixDesc\<close> derives from a layout, where it is the layout's \<open>num_cols\<close> in both
  storage orders.
\<close>

theorem reduced_dim_by_flag:
  "reduced_dim d = (if transpose d = kTranspose then num_rows d else num_cols d) \<and>
   reduced_dim (GetMatrixDesc layout dat)
     = (if transpose (GetMatrixDesc layout dat) = kTranspose
        then num_rows (GetMatrixDesc layout dat) else num_cols (GetMatrixDesc layout dat)) \<and>
   reduced_dim (GetMatrixDesc layout dat) = MatrixLayout.num_cols layout"
  by (simp add: reduced_dim_def GetMatrixDesc_def Let_def)

theorem reduced_dim_by_flag_witness:
  "reduced_dim (desc_of 10 kTranspose 2 3) = 2 \<and>
   reduced_dim (desc_of 10 kNoTranspose 2 3) = 3 \<and>
   reduced_dim (desc_of 10 kConjugateTranspose 2 3) = 3 \<and>
   reduced_dim (GetMatrixDesc (layout_of F32 2 3 kColumnMajor) (10::nat)) = 3"
  using reduced_dim_by_flag [of "desc_of 10 kTranspose 2 3" "layout_of F32 2 3 kColumnMajor" "10::nat"]
        reduced_dim_by_flag [of "desc_of 10 kNoTranspose 2 3" "layout_of F32 2 3 kColumnMajor" "10::nat"]
        reduced_dim_by_flag [of "desc_of 10 kConjugateTranspose 2 3" "layout_of F32 2 3 kColumnMajor" "10::nat"]
  by (simp add: desc_of_def layout_of_def)

subsection \<open>The shape and stride tuples of the three operands\<close>

lemma swap_at_last_two: "swap_at 2 (Suc 0) [a, b, c] = [a, c, b]"
  by (simp add: swap_at_def)

lemma CreateMatMulParams_lhs:
  "a_dims (CreateMatMulParams batch lhs rhs out) =
     (if transpose lhs = kTranspose then [batch, num_cols lhs, num_rows lhs]
      else [batch, num_rows lhs, num_cols lhs])"
  "a_strides (CreateMatMulParams batch lhs rhs out) =
     (if transpose lhs = kTranspose then [batch_stride lhs, 1, leading_dim_stride lhs]
      else [batch_stride lhs, leading_dim_stride lhs, 1])"
  by (simp_all add: CreateMatMulParams_def Let_def swap_at_last_two)

lemma CreateMatMulParams_rhs:
  "b_dims (CreateMatMulParams batch lhs rhs out) =
     (if transpose rhs = kTranspose then [batch, num_cols rhs, num_rows rhs]
      else [batch, num_rows rhs, num_cols rhs])"
  "b_strides (CreateMatMulParams batch lhs rhs out) =
     (if transpose rhs = kTranspose then [batch_stride rhs, 1, leading_dim_stride rhs]
      else [batch_stride rhs, leading_dim_stride rhs, 1])"
  by (simp_all add: CreateMatMulParams_def Let_def swap_at_last_two)

lemma CreateMatMulParams_out:
  "c_dims (CreateMatMulParams batch lhs rhs out) = [batch, num_rows out, num_cols out]"
  "c_strides (CreateMatMulParams batch lhs rhs out)
     = [batch_stride out, leading_dim_stride out, 1]"
  by (simp_all add: CreateMatMulParams_def Let_def)

lemma DoGemm_check:
  "transpose output \<noteq> kNoTranspose \<Longrightarrow>
   DoGemm be input batch m n k lhs rhs output a b prec calls = (Inl CheckFailure, calls)"
  by (simp add: DoGemm_def)

text \<open>
  \<^verbatim>\<open>CreateMatMulParams\<close> is called from \<^verbatim>\<open>DoGemm\<close> only, after the \<^verbatim>\<open>CHECK\<close>: a
  result other than a check failure means that the output is \<open>kNoTranspose\<close>, and then
  the first backend call recorded is the primitive descriptor with these parameters.
\<close>

lemma DoGemm_checked:
  assumes "DoGemm be input batch m n k lhs rhs out a b prec calls = (result, calls')"
    and "result \<noteq> Inl CheckFailure"
  shows "transpose out = kNoTranspose"
proof (rule ccontr)
  assume "transpose out \<noteq> kNoTranspose"
  then have "DoGemm be input batch m n k lhs rhs out a b prec calls = (Inl CheckFailure, calls)"
    by (rule DoGemm_check)
  with assms show False by simp
qed

lemma DoGemm_records_params:
  assumes "transpose out = kNoTranspose"
  shows "\<exists>rest. snd (DoGemm be input batch m n k lhs rhs out a b prec calls) =
           calls @ PrimitiveDesc input (CreateMatMulParams batch lhs rhs out)
                     (input = float) a b # rest"
  using assms by (simp add: DoGemm_def Let_def split: sum.splits)

text \<open>
  C7. Whenever \<^verbatim>\<open>DoGemm\<close> gets past its \<^verbatim>\<open>CHECK\<close>, the parameters it hands to the
  backend are those of \<^verbatim>\<open>CreateMatMulParams\<close>, in which each operand's shape tuple is
  built as (batch_size, num_rows, num_cols) and its stride tuple as
  (batch_stride, leading_dim_stride, 1), and for every operand marked transposed, lhs, rhs
  or output, the last two entries of both tuples are swapped. \<^verbatim>\<open>CreateMatMulParams\<close>
  itself swaps for the lhs and the rhs; for the output there is nothing to swap, since
  the \<^verbatim>\<open>CHECK\<close> has passed only when the output is \<open>kNoTranspose\<close>.
\<close>

theorem DoGemm_operand_tuples:
  assumes "DoGemm be input batch m n k lhs rhs out a b prec calls = (result, calls')"
    and "result \<noteq> Inl CheckFailure"
  shows "(\<exists>rest. calls' = calls @ PrimitiveDesc input (CreateMatMulParams batch lhs rhs out)
                              (input = float) a b # rest) \<and>
   a_dims (CreateMatMulParams batch lhs rhs out) =
     (if transpose lhs = kTranspose then [batch, num_cols lhs, num_rows lhs]
      else [batch, num_rows lhs, num_cols lhs]) \<and>
   a_strides (CreateMatMulParams batch lhs rhs out) =
     (if transpose lhs = kTranspose then [batch_stride lhs, 1, leading_dim_stride lhs]
      else [batch_stride lhs, leading_dim_stride lhs, 1]) \<and>
   b_dims (CreateMatMulParams batch lhs rhs out) =
     (if transpose rhs = kTranspose then [batch, num_cols rhs, num_rows rhs]
      else [batch, num_rows rhs, num_cols rhs]) \<and>
   b_strides (CreateMatMulParams batch lhs rhs out) =
     (if transpose rhs = kTranspose then [batch_stride rhs, 1, leading_dim_stride rhs]
      else [batch_stride rhs, leading_dim_stride rhs, 1]) \<and>
   c_dims (CreateMatMulParams batch lhs rhs out) =
     (if transpose out = kTranspose then [batch, num_cols out, num_rows out]
      else [batch, num_rows out, num_cols out]) \<and>
   c_strides (CreateMatMulParams batch lhs rhs out) =
     (if transpose out = kTranspose then [batch_stride out, 1, leading_dim_stride out]
      else [batch_stride out, leading_dim_stride out, 1])"
proof -
  from assms have flag: "transpose out = kNoTranspose"
    by (rule DoGemm_checked)
  from DoGemm_records_params [OF flag, of be input batch m n k lhs rhs a b prec calls]
  have "\<exists>rest. calls' = calls @ PrimitiveDesc input (CreateMatMulParams batch lhs rhs out)
                              (input = float) a b # rest"
    by (simp add: assms(1))
  moreover from flag have "c_dims (CreateMatMulParams batch lhs rhs out) =
     (if transpose out = kTranspose then [batch, num_cols out, num_rows out]
      else [batch, num_rows out, num_cols out])"
    and "c_strides (CreateMatMulParams batch lhs rhs out) =
     (if transpose out = kTranspose then [batch_stride out, 1, leading_dim_stride out]
      else [batch_stride out, leading_dim_stride out, 1])"
    by (simp_all add: CreateMatMulParams_out)
  ultimately show ?thesis
    by (simp only: CreateMatMulParams_lhs CreateMatMulParams_rhs simp_thms)
qed

theorem DoGemm_operand_tuples_witness:
  "DoGemm ready_backend float 4 2 3 5 (desc_of 10 kTranspose 5 2) (desc_of 20 kNoTranspose 5 3)
       (desc_of 30 kNoTranspose 2 3) (1::int) 0 0 []
     = (Inr (),
        [PrimitiveDesc float
           \<lparr> a_dims = [4, 2, 5], b_dims = [4, 5, 3], c_dims = [4, 2, 3],
             a_strides = [10, 1, 2], b_strides = [15, 3, 1], c_strides = [6, 3, 1] \<rparr>
           True 1 0,
         Execute 10 20 30 64]) \<and>
   (Inr () :: error + unit) \<noteq> Inl CheckFailure \<and>
   transpose (desc_of 10 kTranspose 5 2) = kTranspose \<and>
   a_dims (CreateMatMulParams 4 (desc_of 10 kTranspose 5 2) (desc_of 20 kNoTranspose 5 3)
             (desc_of 30 kNoTranspose 2 3)) = [4, 2, 5] \<and>
   a_strides (CreateMatMulParams 4 (desc_of 10 kTranspose 5 2) (desc_of 20 kNoTranspose 5 3)
             (desc_of 30 kNoTranspose 2 3)) = [10, 1, 2] \<and>
   c_dims (CreateMatMulParams 4 (desc_of 10 kTranspose 5 2) (desc_of 20 kNoTranspose 5 3)
             (desc_of 30 kNoTranspose 2 3)) = [4, 2, 3]"
proof -
  have run: "DoGemm ready_backend float 4 2 3 5 (desc_of 10 kTranspose 5 2)
       (desc_of 20 kNoTranspose 5 3) (desc_of 30 kNoTranspose 2 3) (1::int) 0 0 []
     = (Inr (),
        [PrimitiveDesc float
           \<lparr> a_dims = [4, 2, 5], b_dims = [4, 5, 3], c_dims = [4, 2, 3],
             a_strides = [10, 1, 2], b_strides = [15, 3, 1], c_strides = [6, 3, 1] \<rparr>
           True 1 0,
         Execute 10 20 30 64])"
    by (simp add: DoGemm_def Let_def CreateMatMulParams_def swap_at_def desc_of_def
          ready_backend_def)
  have ok: "(Inr () :: error + unit) \<noteq> Inl CheckFailure"
    by simp
  from DoGemm_operand_tuples [OF run ok] run ok show ?thesis
    by (simp add: desc_of_def)
qed

subsection \<open>Dtype validation and dispatch\<close>

lemma messages_differ:
  "type_mismatch_message name a b c \<noteq> unexpected_dtype_message name d"
  by (simp add: type_mismatch_message_def unexpected_dtype_message_def)

lemma RunGemm_validation:
  assumes "dtype (output_layout config) \<in> {F16, BF16, F32, F64, C64, C128}"
    and "dtype (lhs_layout config) \<noteq> dtype (output_layout config) \<or>
         dtype (rhs_layout config) \<noteq> dtype (output_layout config)"
  shows "RunGemm name be config lhs_buffer rhs_buffer output_buffer calls =
           (Inl (InternalError (type_mismatch_message name (dtype (lhs_layout config))
              (dtype (rhs_layout config)) (dtype (output_layout config)))), calls)"
  using assms by (auto simp add: RunGemm_def Let_def split: prod.splits)

lemma RunGemm_default:
  assumes "dtype (output_layout config) \<notin> {F16, BF16, F32}"
    and "dtype (output_layout config) \<in> {F64, C64, C128} \<longrightarrow>
         dtype (lhs_layout config) = dtype (output_layout config) \<and>
         dtype (rhs_layout config) = dtype (output_layout config)"
  shows "RunGemm name be config lhs_buffer rhs_buffer output_buffer calls =
           (Inl (InternalError (unexpected_dtype_message name
              (dtype (output_layout config)))), calls)"
  using assms
  by (cases "dtype (output_layout config)")
     (simp_all add: RunGemm_def Let_def split: prod.splits)

text \<open>
  The \<^verbatim>\<open>CHECK\<close> of \<^verbatim>\<open>DoGemm\<close> never fails under \<^verbatim>\<open>RunGemm\<close>: a descriptor derived
  from a layout is \<open>kTranspose\<close> or \<open>kNoTranspose\<close>, and the operand swap turns the first
  into the second. With equal dtypes among F16, BF16 and F32 and an allocator that gives a
  workspace, \<^verbatim>\<open>RunGemm\<close> returns OK after two backend calls.
\<close>

lemma GetMatrixDesc_flag:
  "transpose (GetMatrixDesc layout dat) = kTranspose \<or>
   transpose (GetMatrixDesc layout dat) = kNoTranspose"
  by (simp add: GetMatrixDesc_def Let_def)

lemma MakeBlasGemmCompatible_GetMatrixDesc:
  "transpose (snd (snd (MakeBlasGemmCompatible lhs rhs (GetMatrixDesc layout dat))))
     = kNoTranspose"
  using GetMatrixDesc_flag [of layout dat]
  by (auto simp add: MakeBlasGemmCompatible_def TransposeMatrixDesc_def)

lemma DoGemm_no_check_failure:
  "transpose output = kNoTranspose \<Longrightarrow>
   fst (DoGemm be input batch m n k lhs rhs output a b prec calls) \<noteq> Inl CheckFailure"
  by (simp add: DoGemm_def Let_def split: sum.splits)

lemma RunGemm_no_check_failure:
  "fst (RunGemm name be config lhs_buffer rhs_buffer output_buffer calls) \<noteq> Inl CheckFailure"
proof -
  obtain l r out where
    r: "MakeBlasGemmCompatible (GetMatrixDesc (lhs_layout config) lhs_buffer)
          (GetMatrixDesc (rhs_layout config) rhs_buffer)
          (GetMatrixDesc (output_layout config) output_buffer) = (l, r, out)"
    by (metis prod_cases3)
  have "transpose out = kNoTranspose"
    using MakeBlasGemmCompatible_GetMatrixDesc
      [of "GetMatrixDesc (lhs_layout config) lhs_buffer"
          "GetMatrixDesc (rhs_layout config) rhs_buffer" "output_layout config" output_buffer]
    by (simp add: r)
  then show ?thesis
    by (simp add: RunGemm_def Let_def r DoGemm_no_check_failure split: PrimitiveType.splits)
qed

lemma RunGemm_dispatches:
  assumes out: "dtype (output_layout config) \<in> {F16, BF16, F32}"
    and same: "dtype (lhs_layout config) = dtype (output_layout config)"
      "dtype (rhs_layout config) = dtype (output_layout config)"
    and alloc: "\<And>size. \<exists>w. AllocateWorkspace be size = Inr w"
  shows "\<exists>desc run. RunGemm name be config lhs_buffer rhs_buffer output_buffer calls
           = (Inr (), calls @ [desc, run])"
proof -
  obtain l r out where
    r: "MakeBlasGemmCompatible (GetMatrixDesc (lhs_layout config) lhs_buffer)
          (GetMatrixDesc (rhs_layout config) rhs_buffer)
          (GetMatrixDesc (output_layout config) output_buffer) = (l, r, out)"
    by (metis prod_cases3)
  have flag: "transpose out = kNoTranspose"
    using MakeBlasGemmCompatible_GetMatrixDesc
      [of "GetMatrixDesc (lhs_layout config) lhs_buffer"
          "GetMatrixDesc (rhs_layout config) rhs_buffer" "output_layout config" output_buffer]
    by (simp add: r)
  have run: "\<exists>desc run. DoGemm be input batch m n k l r out a b prec calls
           = (Inr (), calls @ [desc, run])" for input batch m n k a b prec
  proof -
    obtain w where "AllocateWorkspace be
        (scratchpad_size be input (CreateMatMulParams batch l r out)) = Inr w"
      using alloc by blast
    then show ?thesis
      by (simp add: DoGemm_def Let_def flag)
  qed
  from out same show ?thesis
    by (auto simp add: RunGemm_def Let_def r run)
qed

text \<open>
  C3. When the output dtype is one of F16, BF16, F32, F64, C64 and C128 and the lhs dtype
  or the rhs dtype differs from it, \<^verbatim>\<open>RunGemm\<close> fails with the type-mismatch error, whose
  message names the lhs, the rhs and the output dtype, and leaves the backend calls as they
  were.
\<close>

theorem RunGemm_type_mismatch:
  assumes "dtype (output_layout config) \<in> {F16, BF16, F32, F64, C64, C128}"
    and "dtype (lhs_layout config) \<noteq> dtype (output_layout config) \<or>
         dtype (rhs_layout config) \<noteq> dtype (output_layout config)"
  shows "RunGemm name be config lhs_buffer rhs_buffer output_buffer calls =
           (Inl (InternalError
              (''GEMM lhs type('' @ name (dtype (lhs_layout config))
                 @ '') and rhs type('' @ name (dtype (rhs_layout config))
                 @ '') must match output type('' @ name (dtype (output_layout config))
                 @ '')'')), calls)"
  using RunGemm_validation [OF assms] by (simp add: type_mismatch_message_def)

theorem RunGemm_type_mismatch_witness:
  "dtype (output_layout (config_of F32 F16 F16)) \<in> {F16, BF16, F32, F64, C64, C128} \<and>
   dtype (lhs_layout (config_of F32 F16 F16)) \<noteq> dtype (output_layout (config_of F32 F16 F16)) \<and>
   RunGemm lowercase_name ready_backend (config_of F32 F16 F16) 10 20 30 [] =
     (Inl (InternalError
        ''GEMM lhs type(f32) and rhs type(f16) must match output type(f16)''), [])"
proof -
  have out: "dtype (output_layout (config_of F32 F16 F16)) \<in> {F16, BF16, F32, F64, C64, C128}"
    by (simp add: config_of_def layout_of_def)
  have lhs: "dtype (lhs_layout (config_of F32 F16 F16))
      \<noteq> dtype (output_layout (config_of F32 F16 F16))"
    by (simp add: config_of_def layout_of_def)
  then have differ: "dtype (lhs_layout (config_of F32 F16 F16))
        \<noteq> dtype (output_layout (config_of F32 F16 F16)) \<or>
      dtype (rhs_layout (config_of F32 F16 F16))
        \<noteq> dtype (output_layout (config_of F32 F16 F16))"
    by (rule disjI1)
  from RunGemm_type_mismatch [OF out differ, of lowercase_name ready_backend 10 20 30 "[]"]
       out lhs
  show ?thesis
    by (simp add: config_of_def layout_of_def lowercase_name_def)
qed

text \<open>
  C2, as it is stated, promises the type-mismatch error for every mismatch. With lhs and
  rhs F32 and output S32 the three dtypes are not all equal, and \<^verbatim>\<open>RunGemm\<close> fails with
  the unexpected-dtype error instead: the validation is guarded by the output dtype.
\<close>

theorem RunGemm_mismatch_integer_output:
  "\<not> (dtype (lhs_layout (config_of F32 F32 S32)) = dtype (rhs_layout (config_of F32 F32 S32)) \<and>
      dtype (rhs_layout (config_of F32 F32 S32)) = dtype (output_layout (config_of F32 F32 S32))) \<and>
   RunGemm lowercase_name ready_backend (config_of F32 F32 S32) 10 20 30 [] =
     (Inl (InternalError ''Unexpected GEMM dtype: s32''), []) \<and>
   RunGemm lowercase_name ready_backend (config_of F32 F32 S32) 10 20 30 [] \<noteq>
     (Inl (InternalError (type_mismatch_message lowercase_name F32 F32 S32)), [])"
  by (simp add: RunGemm_def Let_def config_of_def layout_of_def lowercase_name_def
        unexpected_dtype_message_def type_mismatch_message_def split: prod.splits)

text \<open>
  C2, amended. When the lhs, rhs and output dtypes are not all equal, \<^verbatim>\<open>RunGemm\<close> fails
  and makes no backend call: with the type-mismatch error when the output dtype is one of
  F16, BF16, F32, F64, C64 and C128, and with the unexpected-dtype error for every other
  output dtype.
\<close>

theorem RunGemm_dtypes_not_all_equal:
  assumes "\<not> (dtype (lhs_layout config) = dtype (rhs_layout config) \<and>
              dtype (rhs_layout config) = dtype (output_layout config))"
  shows "RunGemm name be config lhs_buffer rhs_buffer output_buffer calls =
           (Inl (InternalError
              (if dtype (output_layout config) \<in> {F16, BF16, F32, F64, C64, C128}
               then type_mismatch_message name (dtype (lhs_layout config))
                      (dtype (rhs_layout config)) (dtype (output_layout config))
               else unexpected_dtype_message name (dtype (output_layout config)))), calls)"
proof (cases "dtype (output_layout config) \<in> {F16, BF16, F32, F64, C64, C128}")
  case True
  from assms have "dtype (lhs_layout config) \<noteq> dtype (output_layout config) \<or>
      dtype (rhs_layout config) \<noteq> dtype (output_layout config)"
    by auto
  with True have "RunGemm name be config lhs_buffer rhs_buffer output_buffer calls =
      (Inl (InternalError (type_mismatch_message name (dtype (lhs_layout config))
         (dtype (rhs_layout config)) (dtype (output_layout config)))), calls)"
    by (rule RunGemm_validation)
  with True show ?thesis by simp
next
  case False
  then have "dtype (output_layout config) \<notin> {F16, BF16, F32}"
    and "dtype (output_layout config) \<in> {F64, C64, C128} \<longrightarrow>
         dtype (lhs_layout config) = dtype (output_layout config) \<and>
         dtype (rhs_layout config) = dtype (output_layout config)"
    by auto
  then have "RunGemm name be config lhs_buffer rhs_buffer output_buffer calls =
      (Inl (InternalError (unexpected_dtype_message name (dtype (output_layout config)))), calls)"
    by (rule RunGemm_default)
  with False show ?thesis by simp
qed

theorem RunGemm_dtypes_not_all_equal_witness:
  "\<not> (dtype (lhs_layout (config_of F32 F16 F32)) = dtype (rhs_layout (config_of F32 F16 F32)) \<and>
      dtype (rhs_layout (config_of F32 F16 F32)) = dtype (output_layout (config_of F32 F16 F32))) \<and>
   RunGemm lowercase_name ready_backend (config_of F32 F16 F32) 10 20 30 [] =
     (Inl (InternalError
        ''GEMM lhs type(f32) and rhs type(f16) must match output type(f32)''), []) \<and>
   \<not> (dtype (lhs_layout (config_of F32 F32 S32)) = dtype (rhs_layout (config_of F32 F32 S32)) \<and>
      dtype (rhs_layout (config_of F32 F32 S32)) = dtype (output_layout (config_of F32 F32 S32))) \<and>
   RunGemm lowercase_name ready_backend (config_of F32 F32 S32) 10 20 30 [] =
     (Inl (InternalError ''Unexpected GEMM dtype: s32''), [])"
proof -
  have a: "\<not> (dtype (lhs_layout (config_of F32 F16 F32)) = dtype (rhs_layout (config_of F32 F16 F32)) \<and>
      dtype (rhs_layout (config_of F32 F16 F32)) = dtype (output_layout (config_of F32 F16 F32)))"
    by (simp add: config_of_def layout_of_def)
  have b: "\<not> (dtype (lhs_layout (config_of F32 F32 S32)) = dtype (rhs_layout (config_of F32 F32 S32)) \<and>
      dtype (rhs_layout (config_of F32 F32 S32)) = dtype (output_layout (config_of F32 F32 S32)))"
    by (simp add: config_of_def layout_of_def)
  from RunGemm_dtypes_not_all_equal [OF a, of lowercase_name ready_backend 10 20 30 "[]"]
       RunGemm_dtypes_not_all_equal [OF b, of lowercase_name ready_backend 10 20 30 "[]"]
       a b
  show ?thesis
    by (simp add: config_of_def layout_of_def lowercase_name_def
          unexpected_dtype_message_def type_mismatch_message_def)
qed

text \<open>
  C4, as it is stated, promises the unexpected-dtype error for every lhs and rhs dtype. With
  output F64, rhs F64 and lhs F32, \<^verbatim>\<open>RunGemm\<close> fails in the validation, which comes
  first, with the type-mismatch error.
\<close>

theorem RunGemm_mismatch_before_unexpected:
  "dtype (output_layout (config_of F32 F64 F64)) \<in> {S32, F64, C64, C128} \<and>
   RunGemm lowercase_name ready_backend (config_of F32 F64 F64) 10 20 30 [] =
     (Inl (InternalError
        ''GEMM lhs type(f32) and rhs type(f64) must match output type(f64)''), []) \<and>
   RunGemm lowercase_name ready_backend (config_of F32 F64 F64) 10 20 30 [] \<noteq>
     (Inl (InternalError (unexpected_dtype_message lowercase_name F64)), [])"
  by (simp add: RunGemm_def Let_def config_of_def layout_of_def lowercase_name_def
        unexpected_dtype_message_def type_mismatch_message_def split: prod.splits)

text \<open>
  C4, amended. When the output dtype is S32, F64, C64 or C128, \<^verbatim>\<open>RunGemm\<close> fails for
  all other inputs and makes no backend call. The error is the unexpected-dtype error when
  the output dtype is S32, or when the lhs and the rhs dtype both equal the output dtype;
  it is the type-mismatch error when the output dtype is F64, C64 or C128 and the lhs or
  the rhs dtype differs from it.
\<close>

theorem RunGemm_unsupported_output:
  assumes "dtype (output_layout config) \<in> {S32, F64, C64, C128}"
  shows "RunGemm name be config lhs_buffer rhs_buffer output_buffer calls =
           (Inl (InternalError
              (if dtype (output_layout config) = S32 \<or>
                  (dtype (lhs_layout config) = dtype (output_layout config) \<and>
                   dtype (rhs_layout config) = dtype (output_layout config))
               then unexpected_dtype_message name (dtype (output_layout config))
               else type_mismatch_message name (dtype (lhs_layout config))
                      (dtype (rhs_layout config)) (dtype (output_layout config)))), calls)"
proof (cases "dtype (output_layout config) = S32 \<or>
                  (dtype (lhs_layout config) = dtype (output_layout config) \<and>
                   dtype (rhs_layout config) = dtype (output_layout config))")
  case True
  with assms have "dtype (output_layout config) \<notin> {F16, BF16, F32}"
    and "dtype (output_layout config) \<in> {F64, C64, C128} \<longrightarrow>
         dtype (lhs_layout config) = dtype (output_layout config) \<and>
         dtype (rhs_layout config) = dtype (output_layout config)"
    by auto
  then have "RunGemm name be config lhs_buffer rhs_buffer output_buffer calls =
      (Inl (InternalError (unexpected_dtype_message name (dtype (output_layout config)))), calls)"
    by (rule RunGemm_default)
  with True show ?thesis by simp
next
  case False
  with assms have "dtype (output_layout config) \<in> {F16, BF16, F32, F64, C64, C128}"
    and "dtype (lhs_layout config) \<noteq> dtype (output_layout config) \<or>
         dtype (rhs_layout config) \<noteq> dtype (output_layout config)"
    by auto
  then have "RunGemm name be config lhs_buffer rhs_buffer output_buffer calls =
      (Inl (InternalError (type_mismatch_message name (dtype (lhs_layout config))
         (dtype (rhs_layout config)) (dtype (output_layout config)))), calls)"
    by (rule RunGemm_validation)
  with False show ?thesis by auto
qed

theorem RunGemm_unsupported_output_witness:
  "dtype (output_layout (config_of C64 C64 C64)) \<in> {S32, F64, C64, C128} \<and>
   RunGemm lowercase_name ready_backend (config_of C64 C64 C64) 10 20 30 [] =
     (Inl (InternalError ''Unexpected GEMM dtype: c64''), []) \<and>
   dtype (output_layout (config_of F32 F64 F64)) \<in> {S32, F64, C64, C128} \<and>
   RunGemm lowercase_name ready_backend (config_of F32 F64 F64) 10 20 30 [] =
     (Inl (InternalError
        ''GEMM lhs type(f32) and rhs type(f64) must match output type(f64)''), [])"
proof -
  have a: "dtype (output_layout (config_of C64 C64 C64)) \<in> {S32, F64, C64, C128}"
    by (simp add: config_of_def layout_of_def)
  have b: "dtype (output_layout (config_of F32 F64 F64)) \<in> {S32, F64, C64, C128}"
    by (simp add: config_of_def layout_of_def)
  from RunGemm_unsupported_output [OF a, of lowercase_name ready_backend 10 20 30 "[]"]
       RunGemm_unsupported_output [OF b, of lowercase_name ready_backend 10 20 30 "[]"]
       a b
  show ?thesis
    by (simp add: config_of_def layout_of_def lowercase_name_def
          unexpected_dtype_message_def type_mismatch_message_def)
qed

text \<open>
  C10. When the output dtype is S32, \<^verbatim>\<open>RunGemm\<close> fails with the error
  "Unexpected GEMM dtype", whatever the lhs and rhs dtypes are, and not with the
  type-mismatch error: the validation does not apply to an integer output dtype.
\<close>

theorem RunGemm_integer_output:
  assumes "dtype (output_layout config) = S32"
  shows "RunGemm name be config lhs_buffer rhs_buffer output_buffer calls =
           (Inl (InternalError (''Unexpected GEMM dtype: '' @ name S32)), calls) \<and>
         RunGemm name be config lhs_buffer rhs_buffer output_buffer calls \<noteq>
           (Inl (InternalError (type_mismatch_message name (dtype (lhs_layout config))
              (dtype (rhs_layout config)) (dtype (output_layout config)))), calls)"
proof -
  from assms have "dtype (output_layout config) \<notin> {F16, BF16, F32}"
    and "dtype (output_layout config) \<in> {F64, C64, C128} \<longrightarrow>
         dtype (lhs_layout config) = dtype (output_layout config) \<and>
         dtype (rhs_layout config) = dtype (output_layout config)"
    by simp_all
  then have "RunGemm name be config lhs_buffer rhs_buffer output_buffer calls =
      (Inl (InternalError (unexpected_dtype_message name (dtype (output_layout config)))), calls)"
    by (rule RunGemm_default)
  with assms show ?thesis
    using messages_differ [of name "dtype (lhs_layout config)" "dtype (rhs_layout config)"
        "dtype (output_layout config)" S32]
    by (auto simp add: unexpected_dtype_message_def)
qed

theorem RunGemm_integer_output_witness:
  "dtype (output_layout (config_of F32 F16 S32)) = S32 \<and>
   dtype (lhs_layout (config_of F32 F16 S32)) \<noteq> dtype (output_layout (config_of F32 F16 S32)) \<and>
   dtype (rhs_layout (config_of F32 F16 S32)) \<noteq> dtype (output_layout (config_of F32 F16 S32)) \<and>
   RunGemm lowercase_name ready_backend (config_of F32 F16 S32) 10 20 30 [] =
     (Inl (InternalError ''Unexpected GEMM dtype: s32''), []) \<and>
   RunGemm lowercase_name ready_backend (config_of F32 F16 S32) 10 20 30 [] \<noteq>
     (Inl (InternalError
        ''GEMM lhs type(f32) and rhs type(f16) must match output type(s32)''), [])"
proof -
  have a: "dtype (output_layout (config_of F32 F16 S32)) = S32"
    by (simp add: config_of_def layout_of_def)
  from RunGemm_integer_output [OF a, of lowercase_name ready_backend 10 20 30 "[]"] a
  show ?thesis
    by (simp add: config_of_def layout_of_def lowercase_name_def type_mismatch_message_def)
qed

end
